theory Spec2Isabelle
  imports Complex_Main "HOL-Library.Word"
begin

unbundle bit_operations_syntax

section \<open>Shader scalars and vectors\<close>

text \<open>
  The shader computes on the GPU's \<^verbatim>\<open>float\<close>. Its arithmetic is not part of the
  sources, so the scalar type is a type variable \<open>'f\<close> and the operators and
  intrinsics the shader applies to it are the fields of \<open>FloatOps\<close>. Every function
  below takes them as its first argument, and what is proved of a function holds for
  any arithmetic, unless a theorem states a law of the arithmetic as a premise.
\<close>

datatype 'f float2 = Float2 'f 'f
datatype 'f float3 = Float3 'f 'f 'f
datatype 'f float4 = Float4 'f 'f 'f 'f

record 'f FloatOps =
  op_mul :: "'f \<Rightarrow> 'f \<Rightarrow> 'f"               \<comment> \<open>\<^verbatim>\<open>a * b\<close>\<close>
  op_gt :: "'f \<Rightarrow> 'f \<Rightarrow> bool"              \<comment> \<open>\<^verbatim>\<open>a > b\<close>\<close>
  op_lt :: "'f \<Rightarrow> 'f \<Rightarrow> bool"              \<comment> \<open>\<^verbatim>\<open>a < b\<close>\<close>
  op_eq :: "'f \<Rightarrow> 'f \<Rightarrow> bool"              \<comment> \<open>\<^verbatim>\<open>a == b\<close>\<close>
  op_min :: "'f \<Rightarrow> 'f \<Rightarrow> 'f"               \<comment> \<open>\<^verbatim>\<open>min(a, b)\<close>\<close>
  op_isnan :: "'f \<Rightarrow> bool"                  \<comment> \<open>\<^verbatim>\<open>isnan(a)\<close>\<close>
  op_dot :: "'f float3 \<Rightarrow> 'f float3 \<Rightarrow> 'f" \<comment> \<open>\<^verbatim>\<open>dot(a, b)\<close>\<close>
  zero_f :: 'f                              \<comment> \<open>\<^verbatim>\<open>0.f\<close>\<close>
  one_f :: 'f                               \<comment> \<open>\<^verbatim>\<open>1.f\<close>\<close>
  M_PI :: 'f                                \<comment> \<open>\<^verbatim>\<open>M_PI\<close> of MathConstants.slang\<close>

text \<open>\<^verbatim>\<open>float3(s)\<close>, the vector with \<open>s\<close> in every channel.\<close>

definition splat3 :: "'f \<Rightarrow> 'f float3" where
  "splat3 s = Float3 s s s"

text \<open>\<^verbatim>\<open>a * b\<close> on two vectors multiplies channel by channel.\<close>

fun mul3 :: "'f FloatOps \<Rightarrow> 'f float3 \<Rightarrow> 'f float3 \<Rightarrow> 'f float3" where
  "mul3 fo (Float3 a1 a2 a3) (Float3 b1 b2 b3) =
     Float3 (op_mul fo a1 b1) (op_mul fo a2 b2) (op_mul fo a3 b3)"

text \<open>\<^verbatim>\<open>a * s\<close> on a vector and a scalar multiplies every channel by \<open>s\<close>.\<close>

fun scale3 :: "'f FloatOps \<Rightarrow> 'f float3 \<Rightarrow> 'f \<Rightarrow> 'f float3" where
  "scale3 fo (Float3 a1 a2 a3) s = Float3 (op_mul fo a1 s) (op_mul fo a2 s) (op_mul fo a3 s)"

text \<open>\<^verbatim>\<open>any(p(v))\<close> and \<^verbatim>\<open>all(p(v))\<close> for a test \<open>p\<close> applied to each channel.\<close>

fun any3 :: "('f \<Rightarrow> bool) \<Rightarrow> 'f float3 \<Rightarrow> bool" where
  "any3 p (Float3 a1 a2 a3) = (p a1 \<or> p a2 \<or> p a3)"

fun all3 :: "('f \<Rightarrow> bool) \<Rightarrow> 'f float3 \<Rightarrow> bool" where
  "all3 p (Float3 a1 a2 a3) = (p a1 \<and> p a2 \<and> p a3)"

text \<open>A relation between two vectors that holds in every channel.\<close>

fun rel3 :: "('f \<Rightarrow> 'f \<Rightarrow> bool) \<Rightarrow> 'f float3 \<Rightarrow> 'f float3 \<Rightarrow> bool" where
  "rel3 p (Float3 a1 a2 a3) (Float3 b1 b2 b3) = (p a1 b1 \<and> p a2 b2 \<and> p a3 b3)"

text \<open>\<^verbatim>\<open>float4(v, s)\<close>.\<close>

fun float4_of :: "'f float3 \<Rightarrow> 'f \<Rightarrow> 'f float4" where
  "float4_of (Float3 a1 a2 a3) s = Float4 a1 a2 a3 s"

section \<open>Data\<close>

text \<open>\<^verbatim>\<open>struct PathTracerData\<close>; its three members are opaque to this file.\<close>

record ('par, 'env, 'es) PathTracerData =
  params :: 'par
  envProbe :: 'env
  emissiveSampler :: 'es

text \<open>
  The members of \<^verbatim>\<open>ShadingData\<close> that PathTracer.slang reads. The others stay in the
  record's extension, for the material routines that receive the whole struct.
\<close>

record 'f ShadingData =
  N :: "'f float3"
  NdotV :: 'f
  emissive :: "'f float3"

record 'f RayDesc =
  Origin :: "'f float3"
  Direction :: "'f float3"
  TMin :: 'f
  TMax :: 'f

record ShadowRayData =
  visible :: bool

text \<open>The members of \<^verbatim>\<open>SceneLightSample\<close> and \<^verbatim>\<open>BRDFSample\<close> that are read here.\<close>

record 'f SceneLightSample =
  dir :: "'f float3"
  rayDir :: "'f float3"
  rayDistance :: 'f
  Li :: "'f float3"

record 'f BRDFSample =
  dir :: "'f float3"
  thp :: "'f float3"
  pdf :: 'f

text \<open>
  \<^verbatim>\<open>ScatterRayData\<close>, the payload of a scatter ray: the members PathTracer.slang reads
  or writes. \<open>pathLength\<close> is a \<^verbatim>\<open>uint\<close>, \<open>sg\<close> the state of the sample generator.
\<close>

record ('f, 'sg) ScatterRayData =
  origin :: "'f float3"
  direction :: "'f float3"
  thp :: "'f float3"
  Le :: "'f float3"
  Lr :: "'f float3"
  shadowRay :: "'f float4"
  pdf :: 'f
  normal :: "'f float3"
  pathLength :: "32 word"
  terminated :: bool
  sg :: 'sg

text \<open>
  The compile-time constants the shader is specialised with. They are declared outside
  PathTracer.slang, so they are parameters here.
\<close>

record 'f StaticParams =
  kUseBRDFSampling :: bool
  kUseMIS :: bool
  kUseEnvLight :: bool
  kUseEmissiveLights :: bool
  kUseEmissiveSampler :: bool
  kMaxBounces :: "32 word"
  kMinCosTheta :: 'f
  kRayTypeShadow :: "32 word"
  hitProgramCount :: "32 word"

text \<open>
  The routines PathTracer.slang imports from other modules (Scene, Shading, Raytracing,
  the sample generator). A routine with an \<^verbatim>\<open>inout SampleGenerator\<close> argument returns
  the generator's new state beside its result; one with an \<^verbatim>\<open>out\<close> argument
  returns it as a component. \<open>TraceRay\<close> is the dispatch of a shadow ray on the scene
  \<^verbatim>\<open>gRtScene\<close>: from the ray flags, the instance mask, the hit index, the hit program
  count, the miss index, the ray and the payload to the payload after the dispatch.
\<close>

record ('f, 'm, 'sg, 'hit, 'par, 'env, 'es) Externals =
  TraceRay :: "32 word \<Rightarrow> 32 word \<Rightarrow> 32 word \<Rightarrow> 32 word \<Rightarrow> 32 word \<Rightarrow> 'f RayDesc
                 \<Rightarrow> ShadowRayData \<Rightarrow> ShadowRayData"
  sampleSceneLights :: "'par \<Rightarrow> 'env \<Rightarrow> 'es \<Rightarrow> ('f, 'm) ShadingData_scheme \<Rightarrow> 'f float3 \<Rightarrow> 'sg
                 \<Rightarrow> 'f SceneLightSample \<times> 'sg"
  evalBRDFCosine :: "('f, 'm) ShadingData_scheme \<Rightarrow> 'f float3 \<Rightarrow> 'f float3"
  evalBRDF :: "('f, 'm) ShadingData_scheme \<Rightarrow> 'f float3 \<Rightarrow> 'f float3"
  sampleBRDF :: "('f, 'm) ShadingData_scheme \<Rightarrow> 'sg \<Rightarrow> 'f BRDFSample \<times> 'sg"
  sampleNext2D :: "'sg \<Rightarrow> 'f float2 \<times> 'sg"
  sampleHemisphereCosine :: "('f, 'm) ShadingData_scheme \<Rightarrow> 'f float2 \<Rightarrow> 'f float3 \<times> 'f"
  evalEnvProbePdf :: "'env \<Rightarrow> 'f float3 \<Rightarrow> 'f"
  evalEnvProbe :: "'env \<Rightarrow> 'f float3 \<Rightarrow> 'f float3"
  getEnvLightSelectionPdf :: 'f
  getEmissiveLightSelectionPdf :: 'f
  evalMIS :: "'par \<Rightarrow> 'f \<Rightarrow> 'f \<Rightarrow> 'f"
  evalPdf :: "'es \<Rightarrow> 'f float3 \<Rightarrow> 'f float3 \<Rightarrow> 'hit \<Rightarrow> 'f"
  computeNewRayOrigin :: "('f, 'm) ShadingData_scheme \<Rightarrow> 'f float3"

section \<open>Tracing a shadow ray\<close>

text \<open>The two ray flags of the ray-tracing API that \<^verbatim>\<open>traceShadowRay\<close> sets.\<close>

definition RAY_FLAG_ACCEPT_FIRST_HIT_AND_END_SEARCH :: "32 word" where
  "RAY_FLAG_ACCEPT_FIRST_HIT_AND_END_SEARCH = 0x04"

definition RAY_FLAG_SKIP_CLOSEST_HIT_SHADER :: "32 word" where
  "RAY_FLAG_SKIP_CLOSEST_HIT_SHADER = 0x08"

text \<open>
  Modelled from the spec: \<^verbatim>\<open>logTraceRay\<close> belongs to the Logging module, which is not
  among the sources. The spec describes it as the increment of a global ray-trace
  counter, which is the state threaded through \<open>traceShadowRay\<close>.
\<close>

definition logTraceRay :: "nat \<Rightarrow> nat" where
  "logTraceRay stats = stats + 1"

text \<open>
  \<^verbatim>\<open>traceShadowRay\<close> returns the visibility and the trace counter after the call. The
  dispatch runs for a dummy ray too; the early return comes after it.
\<close>

definition traceShadowRay ::
  "'f FloatOps \<Rightarrow> ('f, 'k) StaticParams_scheme
     \<Rightarrow> ('f, 'm, 'sg, 'hit, 'par, 'env, 'es, 'x) Externals_scheme
     \<Rightarrow> 'f float3 \<Rightarrow> 'f float3 \<Rightarrow> 'f \<Rightarrow> bool \<Rightarrow> nat \<Rightarrow> bool \<times> nat" where
  "traceShadowRay fo k ext origin' dir' distance valid stats =
     (let ray = \<lparr>Origin = origin', Direction = dir', TMin = zero_f fo,
                 TMax = (if valid then distance else zero_f fo)\<rparr>;
          rayData = \<lparr>visible = False\<rparr>;
          rayFlags = RAY_FLAG_SKIP_CLOSEST_HIT_SHADER OR RAY_FLAG_ACCEPT_FIRST_HIT_AND_END_SEARCH;
          rayData = TraceRay ext rayFlags 0xff (kRayTypeShadow k) (hitProgramCount k)
                      (kRayTypeShadow k) ray rayData
      in if \<not> valid then (False, stats)
         else (visible rayData, logTraceRay stats))"

text \<open>
  Modelled from the spec: the dispatch itself and the shadow miss program are not among
  the sources. By the spec the closest-hit program is skipped and a miss response sets
  the payload visible; \<open>occluded\<close> tells whether the scene has an accepted hit on the
  ray. It is one possible \<open>TraceRay\<close>.
\<close>

definition dispatchShadow ::
  "('f RayDesc \<Rightarrow> bool) \<Rightarrow> 32 word \<Rightarrow> 32 word \<Rightarrow> 32 word \<Rightarrow> 32 word \<Rightarrow> 32 word
     \<Rightarrow> 'f RayDesc \<Rightarrow> ShadowRayData \<Rightarrow> ShadowRayData" where
  "dispatchShadow occluded rayFlags instMask hitIdx hitCount missIdx ray rayData =
     (if occluded ray then rayData else rayData\<lparr>visible := True\<rparr>)"

section \<open>Generating the rays of the next path segment\<close>

definition generateShadowRay ::
  "'f FloatOps \<Rightarrow> ('f, 'm, 'sg, 'hit, 'par, 'env, 'es, 'x) Externals_scheme
     \<Rightarrow> ('par, 'env, 'es) PathTracerData \<Rightarrow> ('f, 'm) ShadingData_scheme \<Rightarrow> 'f float3
     \<Rightarrow> ('f, 'sg) ScatterRayData \<Rightarrow> ('f, 'sg) ScatterRayData" where
  "generateShadowRay fo ext pt sd rayOrigin rayData =
     (let (ls, sg') = sampleSceneLights ext (params pt) (envProbe pt) (emissiveSampler pt)
                        sd rayOrigin (sg rayData);
          valid = any3 (\<lambda>c. op_gt fo c (zero_f fo)) (Li ls)
      in rayData\<lparr>sg := sg',
           shadowRay := float4_of (rayDir ls) (rayDistance ls),
           Lr := (if valid
                  then mul3 fo (mul3 fo (evalBRDFCosine ext sd (SceneLightSample.dir ls)) (Li ls))
                         (thp rayData)
                  else splat3 (zero_f fo))\<rparr>)"

text \<open>
  \<^verbatim>\<open>generateScatterRay\<close> up to its two assertions: the new origin, and the branch that
  samples the direction and updates throughput and pdf.
\<close>

definition scatterSegment ::
  "'f FloatOps \<Rightarrow> ('f, 'k) StaticParams_scheme
     \<Rightarrow> ('f, 'm, 'sg, 'hit, 'par, 'env, 'es, 'x) Externals_scheme
     \<Rightarrow> ('f, 'm) ShadingData_scheme \<Rightarrow> 'f float3
     \<Rightarrow> ('f, 'sg) ScatterRayData \<Rightarrow> ('f, 'sg) ScatterRayData" where
  "scatterSegment fo k ext sd rayOrigin rayData0 =
     (let rayData = rayData0\<lparr>origin := rayOrigin\<rparr>
      in if kUseBRDFSampling k then
           (let (result, sg') = sampleBRDF ext sd (sg rayData)
            in rayData\<lparr>sg := sg',
                 direction := BRDFSample.dir result,
                 thp := mul3 fo (thp rayData) (BRDFSample.thp result),
                 pdf := (if kUseMIS k then BRDFSample.pdf result else zero_f fo)\<rparr>)
         else
           (let (u, sg') = sampleNext2D ext (sg rayData);
                (dir', pdf0) = sampleHemisphereCosine ext sd u;
                NdotL = op_dot fo (N sd) dir';
                pdf' = (if op_lt fo (op_min fo (NdotV sd) NdotL) (kMinCosTheta k)
                        then zero_f fo else pdf0)
            in rayData\<lparr>sg := sg',
                 direction := dir',
                 thp := mul3 fo (thp rayData) (scale3 fo (evalBRDF ext sd dir') (M_PI fo)),
                 pdf := (if kUseMIS k then pdf' else zero_f fo)\<rparr>))"

text \<open>
  The two assertions of \<^verbatim>\<open>generateScatterRay\<close>, evaluated where the source has them.
  A failed \<^verbatim>\<open>assert\<close> of the shader is recorded by the pixel debugger and the
  function goes on, so the payload does not depend on them.
\<close>

definition generateScatterRay_asserts ::
  "'f FloatOps \<Rightarrow> ('f, 'k) StaticParams_scheme
     \<Rightarrow> ('f, 'm, 'sg, 'hit, 'par, 'env, 'es, 'x) Externals_scheme
     \<Rightarrow> ('par, 'env, 'es) PathTracerData \<Rightarrow> ('f, 'm) ShadingData_scheme \<Rightarrow> 'f float3
     \<Rightarrow> ('f, 'sg) ScatterRayData \<Rightarrow> bool" where
  "generateScatterRay_asserts fo k ext pt sd rayOrigin rayData0 =
     (let rayData = scatterSegment fo k ext sd rayOrigin rayData0
      in \<not> any3 (op_isnan fo) (thp rayData) \<and> \<not> op_isnan fo (pdf rayData))"

definition generateScatterRay ::
  "'f FloatOps \<Rightarrow> ('f, 'k) StaticParams_scheme
     \<Rightarrow> ('f, 'm, 'sg, 'hit, 'par, 'env, 'es, 'x) Externals_scheme
     \<Rightarrow> ('par, 'env, 'es) PathTracerData \<Rightarrow> ('f, 'm) ShadingData_scheme \<Rightarrow> 'f float3
     \<Rightarrow> ('f, 'sg) ScatterRayData \<Rightarrow> ('f, 'sg) ScatterRayData" where
  "generateScatterRay fo k ext pt sd rayOrigin rayData0 =
     (let rayData = scatterSegment fo k ext sd rayOrigin rayData0;
          rayData = (if kUseMIS k then rayData\<lparr>normal := N sd\<rparr> else rayData)
      in if all3 (\<lambda>c. op_eq fo c (zero_f fo)) (thp rayData)
         then rayData\<lparr>terminated := True\<rparr> else rayData)"

section \<open>The miss and hit handlers\<close>

definition handleMiss ::
  "'f FloatOps \<Rightarrow> ('f, 'k) StaticParams_scheme
     \<Rightarrow> ('f, 'm, 'sg, 'hit, 'par, 'env, 'es, 'x) Externals_scheme
     \<Rightarrow> ('par, 'env, 'es) PathTracerData
     \<Rightarrow> ('f, 'sg) ScatterRayData \<Rightarrow> ('f, 'sg) ScatterRayData" where
  "handleMiss fo k ext pt rayData0 =
     (let rayData = rayData0\<lparr>terminated := True\<rparr>
      in if kUseEnvLight k \<and> kUseMIS k then
           (let dir' = direction rayData;
                lightPdf = op_mul fo (evalEnvProbePdf ext (envProbe pt) dir')
                             (getEnvLightSelectionPdf ext);
                misWeight = evalMIS ext (params pt) (pdf rayData) lightPdf;
                Le' = scale3 fo (evalEnvProbe ext (envProbe pt) dir') misWeight
            in rayData\<lparr>Le := mul3 fo (thp rayData) Le'\<rparr>)
         else rayData)"

text \<open>The constant \<^verbatim>\<open>computeEmissive\<close> of \<^verbatim>\<open>handleHit\<close>.\<close>

definition computeEmissive :: "('f, 'k) StaticParams_scheme \<Rightarrow> bool" where
  "computeEmissive k =
     (kUseEmissiveLights k \<and>
      (\<not> kUseEmissiveSampler k \<or> (kUseEmissiveSampler k \<and> kUseMIS k)))"

text \<open>The first statement of \<^verbatim>\<open>handleHit\<close>: the emissive contribution of the hit.\<close>

definition handleHit_emissive ::
  "'f FloatOps \<Rightarrow> ('f, 'k) StaticParams_scheme
     \<Rightarrow> ('f, 'm, 'sg, 'hit, 'par, 'env, 'es, 'x) Externals_scheme
     \<Rightarrow> ('par, 'env, 'es) PathTracerData \<Rightarrow> ('f, 'm) ShadingData_scheme \<Rightarrow> 'hit
     \<Rightarrow> ('f, 'sg) ScatterRayData \<Rightarrow> ('f, 'sg) ScatterRayData" where
  "handleHit_emissive fo k ext pt sd hit rayData =
     (if computeEmissive k \<and> any3 (\<lambda>c. op_gt fo c (zero_f fo)) (emissive sd) then
        (let misWeight =
               (if kUseEmissiveSampler k \<and> kUseMIS k then
                  (let lightPdf = op_mul fo
                         (evalPdf ext (emissiveSampler pt) (origin rayData) (normal rayData) hit)
                         (getEmissiveLightSelectionPdf ext)
                   in evalMIS ext (params pt) (pdf rayData) lightPdf)
                else one_f fo)
         in rayData\<lparr>Le := scale3 fo (mul3 fo (thp rayData) (emissive sd)) misWeight\<rparr>)
      else rayData)"

definition handleHit ::
  "'f FloatOps \<Rightarrow> ('f, 'k) StaticParams_scheme
     \<Rightarrow> ('f, 'm, 'sg, 'hit, 'par, 'env, 'es, 'x) Externals_scheme
     \<Rightarrow> ('par, 'env, 'es) PathTracerData \<Rightarrow> ('f, 'm) ShadingData_scheme \<Rightarrow> 'hit \<Rightarrow> bool
     \<Rightarrow> ('f, 'sg) ScatterRayData \<Rightarrow> ('f, 'sg) ScatterRayData" where
  "handleHit fo k ext pt sd hit computeIndirect rayData0 =
     (let rayData = handleHit_emissive fo k ext pt sd hit rayData0
      in if computeIndirect \<and> pathLength rayData < kMaxBounces k then
           (let rayOrigin = computeNewRayOrigin ext sd;
                rayData = generateShadowRay fo ext pt sd rayOrigin rayData;
                rayData = generateScatterRay fo k ext pt sd rayOrigin rayData
            in rayData\<lparr>pathLength := pathLength rayData + 1\<rparr>)
         else rayData)"

section \<open>An arithmetic and a scene to evaluate on\<close>

text \<open>
  An arithmetic with the special values of the shader's \<^verbatim>\<open>float\<close>: a finite value
  (a rational, not rounded), the two infinities and NaN. A product with a NaN factor,
  or of a zero and an infinity, is NaN; every comparison with NaN is false; \<open>min\<close>
  returns the other operand when one is NaN. The closed instances below are evaluated
  in it.
\<close>

datatype xfloat = Fin rat | PInf | NInf | NaN

fun xsign :: "xfloat \<Rightarrow> int" where
  "xsign (Fin a) = (if a = 0 then 0 else if 0 < a then 1 else -1)"
| "xsign PInf = 1"
| "xsign NInf = -1"
| "xsign NaN = 0"

fun xmul :: "xfloat \<Rightarrow> xfloat \<Rightarrow> xfloat" where
  "xmul (Fin a) (Fin b) = Fin (a * b)"
| "xmul a b =
     (if a = NaN \<or> b = NaN \<or> xsign a * xsign b = 0 then NaN
      else if 0 < xsign a * xsign b then PInf else NInf)"

fun xadd :: "xfloat \<Rightarrow> xfloat \<Rightarrow> xfloat" where
  "xadd (Fin a) (Fin b) = Fin (a + b)"
| "xadd a b =
     (if a = NaN \<or> b = NaN \<or> (a = PInf \<and> b = NInf) \<or> (a = NInf \<and> b = PInf) then NaN
      else if a = PInf \<or> b = PInf then PInf else NInf)"

fun xlt :: "xfloat \<Rightarrow> xfloat \<Rightarrow> bool" where
  "xlt (Fin a) (Fin b) = (a < b)"
| "xlt NaN b = False"
| "xlt a NaN = False"
| "xlt a NInf = False"
| "xlt NInf b = True"
| "xlt PInf b = False"
| "xlt a PInf = True"

definition xeq :: "xfloat \<Rightarrow> xfloat \<Rightarrow> bool" where
  "xeq a b = (a \<noteq> NaN \<and> a = b)"

definition xmin :: "xfloat \<Rightarrow> xfloat \<Rightarrow> xfloat" where
  "xmin a b = (if a = NaN then b else if b = NaN then a else if xlt b a then b else a)"

fun xdot :: "xfloat float3 \<Rightarrow> xfloat float3 \<Rightarrow> xfloat" where
  "xdot (Float3 a1 a2 a3) (Float3 b1 b2 b3) =
     xadd (xadd (xmul a1 b1) (xmul a2 b2)) (xmul a3 b3)"

definition xfloat_ops :: "xfloat FloatOps" where
  "xfloat_ops =
     \<lparr>op_mul = xmul, op_gt = (\<lambda>a b. xlt b a), op_lt = xlt, op_eq = xeq, op_min = xmin,
      op_isnan = (\<lambda>a. a = NaN), op_dot = xdot, zero_f = Fin 0, one_f = Fin 1,
      M_PI = Fin (13176795 / 4194304)\<rparr>"

text \<open>
  A scene: the sample generator is a counter, one light sample of radiance 2 at
  distance 5, a material whose sampling returns weight \<open>w\<close> in every channel, an
  environment of radiance 3, and a MIS weight that is the ratio \<open>1/2\<close>. Nothing
  occludes a shadow ray.
\<close>

definition scene :: "xfloat \<Rightarrow> (xfloat, unit, nat, unit, unit, unit, unit) Externals" where
  "scene w =
     \<lparr>TraceRay = dispatchShadow (\<lambda>ray. False),
      sampleSceneLights = (\<lambda>par env es sd ro g.
         (\<lparr>SceneLightSample.dir = Float3 (Fin 0) (Fin 0) (Fin 1), rayDir = Float3 (Fin 0) (Fin 0) (Fin 1),
           rayDistance = Fin 5, Li = splat3 (Fin 2)\<rparr>, g + 1)),
      evalBRDFCosine = (\<lambda>sd d. splat3 (Fin (1 / 4))),
      evalBRDF = (\<lambda>sd d. splat3 w),
      sampleBRDF = (\<lambda>sd g.
         (\<lparr>BRDFSample.dir = Float3 (Fin 0) (Fin 0) (Fin 1), BRDFSample.thp = splat3 w,
           BRDFSample.pdf = Fin (1 / 3)\<rparr>, g + 2)),
      sampleNext2D = (\<lambda>g. (Float2 (Fin (1 / 2)) (Fin (1 / 4)), g + 2)),
      sampleHemisphereCosine = (\<lambda>sd u. (Float3 (Fin 0) (Fin 0) (Fin 1), Fin (1 / 4))),
      evalEnvProbePdf = (\<lambda>env d. Fin (1 / 2)),
      evalEnvProbe = (\<lambda>env d. splat3 (Fin 3)),
      getEnvLightSelectionPdf = Fin 1,
      getEmissiveLightSelectionPdf = Fin 1,
      evalMIS = (\<lambda>par p q. Fin (1 / 2)),
      evalPdf = (\<lambda>es ro n hit. Fin (1 / 2)),
      computeNewRayOrigin = (\<lambda>sd. Float3 (Fin 0) (Fin 0) (Fin 0))\<rparr>"

definition config :: "bool \<Rightarrow> bool \<Rightarrow> bool \<Rightarrow> xfloat StaticParams" where
  "config brdfSampling mis emissiveSampler' =
     \<lparr>kUseBRDFSampling = brdfSampling, kUseMIS = mis, kUseEnvLight = True,
      kUseEmissiveLights = True, kUseEmissiveSampler = emissiveSampler', kMaxBounces = 3,
      kMinCosTheta = Fin (1 / 1000000), kRayTypeShadow = 1, hitProgramCount = 2\<rparr>"

definition ptData :: "(unit, unit, unit) PathTracerData" where
  "ptData = \<lparr>params = (), envProbe = (), emissiveSampler = ()\<rparr>"

text \<open>A surface facing the viewer, with emission \<open>e\<close> in its first channel only.\<close>

definition surface :: "xfloat \<Rightarrow> xfloat ShadingData" where
  "surface e =
     \<lparr>N = Float3 (Fin 0) (Fin 0) (Fin 1), NdotV = Fin 1, emissive = Float3 e (Fin 0) (Fin 0)\<rparr>"

text \<open>A payload with throughput \<open>t\<close>, path length \<open>n\<close> and termination flag \<open>b\<close>.\<close>

definition payload :: "xfloat float3 \<Rightarrow> 32 word \<Rightarrow> bool \<Rightarrow> (xfloat, nat) ScatterRayData" where
  "payload t n b =
     \<lparr>origin = splat3 (Fin 0), direction = Float3 (Fin 0) (Fin 0) (Fin 1), thp = t,
      Le = splat3 (Fin 7), Lr = splat3 (Fin 9), shadowRay = Float4 (Fin 0) (Fin 0) (Fin 0) (Fin 0),
      pdf = Fin (1 / 5), normal = Float3 (Fin 0) (Fin 1) (Fin 0), pathLength = n,
      terminated = b, sg = 0\<rparr>"

text \<open>The definitions unfolded to evaluate a closed instance.\<close>

lemmas scene_defs =
  xfloat_ops_def scene_def config_def ptData_def surface_def payload_def splat3_def
  xeq_def xmin_def dispatchShadow_def

section \<open>What each function leaves unchanged\<close>

lemma generateShadowRay_frame:
  "origin (generateShadowRay fo ext pt sd ro rd) = origin rd"
  "direction (generateShadowRay fo ext pt sd ro rd) = direction rd"
  "thp (generateShadowRay fo ext pt sd ro rd) = thp rd"
  "Le (generateShadowRay fo ext pt sd ro rd) = Le rd"
  "pdf (generateShadowRay fo ext pt sd ro rd) = pdf rd"
  "normal (generateShadowRay fo ext pt sd ro rd) = normal rd"
  "pathLength (generateShadowRay fo ext pt sd ro rd) = pathLength rd"
  "terminated (generateShadowRay fo ext pt sd ro rd) = terminated rd"
  by (simp_all add: generateShadowRay_def Let_def split: prod.splits)

lemma scatterSegment_frame:
  "Le (scatterSegment fo k ext sd ro rd) = Le rd"
  "Lr (scatterSegment fo k ext sd ro rd) = Lr rd"
  "shadowRay (scatterSegment fo k ext sd ro rd) = shadowRay rd"
  "normal (scatterSegment fo k ext sd ro rd) = normal rd"
  "pathLength (scatterSegment fo k ext sd ro rd) = pathLength rd"
  "terminated (scatterSegment fo k ext sd ro rd) = terminated rd"
  by (simp_all add: scatterSegment_def Let_def split: prod.splits)

lemma generateScatterRay_frame:
  "Le (generateScatterRay fo k ext pt sd ro rd) = Le rd"
  "Lr (generateScatterRay fo k ext pt sd ro rd) = Lr rd"
  "shadowRay (generateScatterRay fo k ext pt sd ro rd) = shadowRay rd"
  "pathLength (generateScatterRay fo k ext pt sd ro rd) = pathLength rd"
  "thp (generateScatterRay fo k ext pt sd ro rd) = thp (scatterSegment fo k ext sd ro rd)"
  "pdf (generateScatterRay fo k ext pt sd ro rd) = pdf (scatterSegment fo k ext sd ro rd)"
  by (simp_all add: generateScatterRay_def Let_def scatterSegment_frame)

lemma generateScatterRay_terminated_mono:
  "terminated rd \<Longrightarrow> terminated (generateScatterRay fo k ext pt sd ro rd)"
  by (simp add: generateScatterRay_def Let_def scatterSegment_frame)

lemma handleHit_emissive_frame:
  "origin (handleHit_emissive fo k ext pt sd hit rd) = origin rd"
  "direction (handleHit_emissive fo k ext pt sd hit rd) = direction rd"
  "thp (handleHit_emissive fo k ext pt sd hit rd) = thp rd"
  "Lr (handleHit_emissive fo k ext pt sd hit rd) = Lr rd"
  "shadowRay (handleHit_emissive fo k ext pt sd hit rd) = shadowRay rd"
  "pdf (handleHit_emissive fo k ext pt sd hit rd) = pdf rd"
  "normal (handleHit_emissive fo k ext pt sd hit rd) = normal rd"
  "pathLength (handleHit_emissive fo k ext pt sd hit rd) = pathLength rd"
  "terminated (handleHit_emissive fo k ext pt sd hit rd) = terminated rd"
  "sg (handleHit_emissive fo k ext pt sd hit rd) = sg rd"
  by (simp_all add: handleHit_emissive_def Let_def)

section \<open>The scatter ray generator\<close>

text \<open>
  Claim C6. After \<open>generateScatterRay\<close> has run on any payload, a throughput that
  compares equal to zero in every channel comes with the terminated flag set.
\<close>

theorem generateScatterRay_zero_thp_terminated:
  "all3 (\<lambda>c. op_eq fo c (zero_f fo)) (thp (generateScatterRay fo k ext pt sd ro rd))
   \<Longrightarrow> terminated (generateScatterRay fo k ext pt sd ro rd)"
  by (simp add: generateScatterRay_def Let_def split: if_splits)

theorem generateScatterRay_zero_thp_terminated_witness:
  "all3 (\<lambda>c. op_eq xfloat_ops c (zero_f xfloat_ops))
     (thp (generateScatterRay xfloat_ops (config True False False) (scene (Fin 0)) ptData
        (surface (Fin 0)) (splat3 (Fin 0)) (payload (splat3 (Fin 1)) 0 False))) \<and>
   terminated (generateScatterRay xfloat_ops (config True False False) (scene (Fin 0)) ptData
        (surface (Fin 0)) (splat3 (Fin 0)) (payload (splat3 (Fin 1)) 0 False)) \<and>
   \<not> terminated (payload (splat3 (Fin 1)) 0 False)"
proof -
  have z: "all3 (\<lambda>c. op_eq xfloat_ops c (zero_f xfloat_ops))
     (thp (generateScatterRay xfloat_ops (config True False False) (scene (Fin 0)) ptData
        (surface (Fin 0)) (splat3 (Fin 0)) (payload (splat3 (Fin 1)) 0 False)))"
    by (simp add: generateScatterRay_def scatterSegment_def Let_def scene_defs)
  have n: "\<not> terminated (payload (splat3 (Fin 1)) 0 False)"
    by (simp add: payload_def)
  from generateScatterRay_zero_thp_terminated [OF z] z n show ?thesis
    by (intro conjI)
qed

text \<open>
  Claim C4. In both branches of \<open>generateScatterRay\<close> the payload's pdf is the
  sampled pdf when MIS is enabled and \<^verbatim>\<open>0.f\<close> when it is not; the payload's normal is
  the shading normal when MIS is enabled and the normal it had before otherwise. In the
  cosine branch the sampled pdf is the one left after the test against \<open>kMinCosTheta\<close>.
\<close>

theorem generateScatterRay_pdf_normal:
  "pdf (generateScatterRay fo k ext pt sd ro rd) =
     (if kUseMIS k then
        (if kUseBRDFSampling k then BRDFSample.pdf (fst (sampleBRDF ext sd (sg rd)))
         else (let (dir', pdf0) = sampleHemisphereCosine ext sd (fst (sampleNext2D ext (sg rd)))
               in if op_lt fo (op_min fo (NdotV sd) (op_dot fo (N sd) dir')) (kMinCosTheta k)
                  then zero_f fo else pdf0))
      else zero_f fo) \<and>
   normal (generateScatterRay fo k ext pt sd ro rd) = (if kUseMIS k then N sd else normal rd)"
  by (simp add: generateScatterRay_def scatterSegment_def Let_def split: prod.splits)

theorem generateScatterRay_pdf_normal_witness:
  "pdf (generateScatterRay xfloat_ops (config True True False) (scene (Fin (1 / 2))) ptData
      (surface (Fin 0)) (splat3 (Fin 0)) (payload (splat3 (Fin 1)) 0 False)) = Fin (1 / 3) \<and>
   normal (generateScatterRay xfloat_ops (config True True False) (scene (Fin (1 / 2))) ptData
      (surface (Fin 0)) (splat3 (Fin 0)) (payload (splat3 (Fin 1)) 0 False))
     = Float3 (Fin 0) (Fin 0) (Fin 1) \<and>
   pdf (generateScatterRay xfloat_ops (config False True False) (scene (Fin (1 / 2))) ptData
      (surface (Fin 0)) (splat3 (Fin 0)) (payload (splat3 (Fin 1)) 0 False)) = Fin (1 / 4) \<and>
   pdf (generateScatterRay xfloat_ops (config True False False) (scene (Fin (1 / 2))) ptData
      (surface (Fin 0)) (splat3 (Fin 0)) (payload (splat3 (Fin 1)) 0 False)) = Fin 0 \<and>
   normal (generateScatterRay xfloat_ops (config True False False) (scene (Fin (1 / 2))) ptData
      (surface (Fin 0)) (splat3 (Fin 0)) (payload (splat3 (Fin 1)) 0 False))
     = Float3 (Fin 0) (Fin 1) (Fin 0) \<and>
   pdf (generateScatterRay xfloat_ops (config False False False) (scene (Fin (1 / 2))) ptData
      (surface (Fin 0)) (splat3 (Fin 0)) (payload (splat3 (Fin 1)) 0 False)) = Fin 0"
  using
    generateScatterRay_pdf_normal [of xfloat_ops "config True True False" "scene (Fin (1 / 2))"
      ptData "surface (Fin 0)" "splat3 (Fin 0)" "payload (splat3 (Fin 1)) 0 False"]
    generateScatterRay_pdf_normal [of xfloat_ops "config False True False" "scene (Fin (1 / 2))"
      ptData "surface (Fin 0)" "splat3 (Fin 0)" "payload (splat3 (Fin 1)) 0 False"]
    generateScatterRay_pdf_normal [of xfloat_ops "config True False False" "scene (Fin (1 / 2))"
      ptData "surface (Fin 0)" "splat3 (Fin 0)" "payload (splat3 (Fin 1)) 0 False"]
    generateScatterRay_pdf_normal [of xfloat_ops "config False False False" "scene (Fin (1 / 2))"
      ptData "surface (Fin 0)" "splat3 (Fin 0)" "payload (splat3 (Fin 1)) 0 False"]
  by (simp add: scene_defs)

text \<open>
  Claim C5. With BRDF sampling disabled, \<open>generateScatterRay\<close> multiplies the
  throughput by \<^verbatim>\<open>evalBRDF(sd, dir) * M_PI\<close> for the sampled direction, and the pdf it
  stores is \<^verbatim>\<open>0.f\<close> whenever \<^verbatim>\<open>min(sd.NdotV, NdotL) < kMinCosTheta\<close>; above the
  threshold the hemisphere sample's pdf is kept (and stored when MIS is enabled).
\<close>

theorem generateScatterRay_cosine_fallback:
  assumes "\<not> kUseBRDFSampling k"
  shows "thp (generateScatterRay fo k ext pt sd ro rd) =
           mul3 fo (thp rd)
             (scale3 fo
                (evalBRDF ext sd (fst (sampleHemisphereCosine ext sd (fst (sampleNext2D ext (sg rd))))))
                (M_PI fo)) \<and>
         (if op_lt fo
               (op_min fo (NdotV sd)
                  (op_dot fo (N sd)
                     (fst (sampleHemisphereCosine ext sd (fst (sampleNext2D ext (sg rd)))))))
               (kMinCosTheta k)
          then pdf (generateScatterRay fo k ext pt sd ro rd) = zero_f fo
          else pdf (generateScatterRay fo k ext pt sd ro rd) =
                 (if kUseMIS k
                  then snd (sampleHemisphereCosine ext sd (fst (sampleNext2D ext (sg rd))))
                  else zero_f fo))"
  using assms
  by (simp add: generateScatterRay_def scatterSegment_def Let_def split: prod.splits)

theorem generateScatterRay_cosine_fallback_witness:
  "\<not> kUseBRDFSampling (config False True False) \<and>
   op_lt xfloat_ops (op_min xfloat_ops (Fin 0) (Fin 1)) (kMinCosTheta (config False True False)) \<and>
   thp (generateScatterRay xfloat_ops (config False True False) (scene (Fin (1 / 2))) ptData
      ((surface (Fin 0))\<lparr>NdotV := Fin 0\<rparr>) (splat3 (Fin 0)) (payload (splat3 (Fin 2)) 0 False))
     = splat3 (Fin (13176795 / 4194304)) \<and>
   pdf (generateScatterRay xfloat_ops (config False True False) (scene (Fin (1 / 2))) ptData
      ((surface (Fin 0))\<lparr>NdotV := Fin 0\<rparr>) (splat3 (Fin 0)) (payload (splat3 (Fin 2)) 0 False))
     = Fin 0 \<and>
   pdf (generateScatterRay xfloat_ops (config False True False) (scene (Fin (1 / 2))) ptData
      (surface (Fin 0)) (splat3 (Fin 0)) (payload (splat3 (Fin 2)) 0 False))
     = Fin (1 / 4)"
proof -
  have b: "\<not> kUseBRDFSampling (config False True False)"
    by (simp add: config_def)
  show ?thesis
    using b
      generateScatterRay_cosine_fallback [OF b, of xfloat_ops "scene (Fin (1 / 2))" ptData
        "(surface (Fin 0))\<lparr>NdotV := Fin 0\<rparr>" "splat3 (Fin 0)" "payload (splat3 (Fin 2)) 0 False"]
      generateScatterRay_cosine_fallback [OF b, of xfloat_ops "scene (Fin (1 / 2))" ptData
        "surface (Fin 0)" "splat3 (Fin 0)" "payload (splat3 (Fin 2)) 0 False"]
    by (simp add: scene_defs)
qed

section \<open>The miss handler\<close>

text \<open>
  Claim C2. \<open>handleMiss\<close> sets the terminated flag of every payload. When the
  environment light and MIS are both enabled it stores
  \<^verbatim>\<open>Le = thp * (evalEnvProbe(dir) * misWeight)\<close>, where the MIS weight combines the
  payload's pdf with the environment pdf times the light-selection pdf; otherwise
  \<open>Le\<close> keeps its value.
\<close>

theorem handleMiss_terminates_and_Le:
  "terminated (handleMiss fo k ext pt rd) = True \<and>
   Le (handleMiss fo k ext pt rd) =
     (if kUseEnvLight k \<and> kUseMIS k
      then mul3 fo (thp rd)
             (scale3 fo (evalEnvProbe ext (envProbe pt) (direction rd))
                (evalMIS ext (params pt) (pdf rd)
                   (op_mul fo (evalEnvProbePdf ext (envProbe pt) (direction rd))
                      (getEnvLightSelectionPdf ext))))
      else Le rd)"
  by (simp add: handleMiss_def Let_def)

theorem handleMiss_terminates_and_Le_witness:
  "terminated (handleMiss xfloat_ops (config True True False) (scene (Fin 1)) ptData
      (payload (splat3 (Fin 2)) 1 False)) = True \<and>
   Le (handleMiss xfloat_ops (config True True False) (scene (Fin 1)) ptData
      (payload (splat3 (Fin 2)) 1 False)) = splat3 (Fin 3) \<and>
   terminated (handleMiss xfloat_ops (config True False False) (scene (Fin 1)) ptData
      (payload (splat3 (Fin 2)) 1 False)) = True \<and>
   Le (handleMiss xfloat_ops (config True False False) (scene (Fin 1)) ptData
      (payload (splat3 (Fin 2)) 1 False)) = splat3 (Fin 7)"
  using
    handleMiss_terminates_and_Le [of xfloat_ops "config True True False" "scene (Fin 1)" ptData
      "payload (splat3 (Fin 2)) 1 False"]
    handleMiss_terminates_and_Le [of xfloat_ops "config True False False" "scene (Fin 1)" ptData
      "payload (splat3 (Fin 2)) 1 False"]
  by (simp add: scene_defs)

section \<open>The shadow ray primitive\<close>

text \<open>
  Claim C3. For every origin, direction and distance, and whatever the dispatch does to
  the payload, \<open>traceShadowRay\<close> with \<open>valid = False\<close> returns \<open>False\<close> and leaves
  the trace counter as it was. With \<open>valid = True\<close> it dispatches a ray with
  \<open>TMax = distance\<close> on a payload initialised to not visible, increments the counter by
  one and returns the visibility the payload holds after the dispatch; when the dispatch
  is the one of the spec, where only a miss sets the payload visible, this is the
  absence of an occluder on that ray.
\<close>

theorem traceShadowRay_dummy_and_valid:
  "traceShadowRay fo k ext org d distance False stats = (False, stats) \<and>
   traceShadowRay fo k ext org d distance True stats =
     (visible
        (TraceRay ext (RAY_FLAG_SKIP_CLOSEST_HIT_SHADER OR RAY_FLAG_ACCEPT_FIRST_HIT_AND_END_SEARCH)
           0xff (kRayTypeShadow k) (hitProgramCount k) (kRayTypeShadow k)
           \<lparr>Origin = org, Direction = d, TMin = zero_f fo, TMax = distance\<rparr>
           \<lparr>visible = False\<rparr>),
      stats + 1) \<and>
   (TraceRay ext = dispatchShadow occluded \<longrightarrow>
      fst (traceShadowRay fo k ext org d distance True stats) =
        (\<not> occluded \<lparr>Origin = org, Direction = d, TMin = zero_f fo, TMax = distance\<rparr>))"
  by (simp add: traceShadowRay_def Let_def logTraceRay_def dispatchShadow_def)

theorem traceShadowRay_dummy_and_valid_witness:
  "TraceRay (scene (Fin 1)) = dispatchShadow (\<lambda>ray. False) \<and>
   visible (TraceRay (scene (Fin 1))
      (RAY_FLAG_SKIP_CLOSEST_HIT_SHADER OR RAY_FLAG_ACCEPT_FIRST_HIT_AND_END_SEARCH) 0xff 1 2 1
      \<lparr>Origin = splat3 (Fin 0), Direction = Float3 (Fin 0) (Fin 0) (Fin 1), TMin = Fin 0,
        TMax = Fin 0\<rparr> \<lparr>visible = False\<rparr>) \<and>
   traceShadowRay xfloat_ops (config True True False) (scene (Fin 1)) (splat3 (Fin 0))
      (Float3 (Fin 0) (Fin 0) (Fin 1)) (Fin 5) False 10 = (False, 10) \<and>
   traceShadowRay xfloat_ops (config True True False) (scene (Fin 1)) (splat3 (Fin 0))
      (Float3 (Fin 0) (Fin 0) (Fin 1)) (Fin 5) True 10 = (True, 11)"
proof -
  have t: "TraceRay (scene (Fin 1)) = dispatchShadow (\<lambda>ray. False)"
    by (simp add: scene_def)
  have v: "visible (TraceRay (scene (Fin 1))
      (RAY_FLAG_SKIP_CLOSEST_HIT_SHADER OR RAY_FLAG_ACCEPT_FIRST_HIT_AND_END_SEARCH) 0xff 1 2 1
      \<lparr>Origin = splat3 (Fin 0), Direction = Float3 (Fin 0) (Fin 0) (Fin 1), TMin = Fin 0,
        TMax = Fin 0\<rparr> \<lparr>visible = False\<rparr>)"
    by (simp add: scene_def dispatchShadow_def)
  show ?thesis
    using t v
      traceShadowRay_dummy_and_valid [of xfloat_ops "config True True False" "scene (Fin 1)"
        "splat3 (Fin 0)" "Float3 (Fin 0) (Fin 0) (Fin 1)" "Fin 5" 10 "\<lambda>ray. False"]
    by (simp add: prod_eq_iff dispatchShadow_def)
qed

section \<open>The terminated flag\<close>

lemma handleMiss_terminated: "terminated (handleMiss fo k ext pt rd)"
  by (simp add: handleMiss_def Let_def)

lemma handleHit_terminated_mono:
  "terminated rd \<Longrightarrow> terminated (handleHit fo k ext pt sd hit ci rd)"
  by (simp add: handleHit_def Let_def handleHit_emissive_frame generateShadowRay_frame
      generateScatterRay_terminated_mono)

text \<open>
  Claim C10. The terminated flag is monotone: on a payload whose flag is set on entry,
  each of \<open>generateShadowRay\<close>, \<open>generateScatterRay\<close>, \<open>handleHit\<close> and
  \<open>handleMiss\<close> returns a payload whose flag is still set.
\<close>

theorem terminated_monotone:
  assumes "terminated rd"
  shows "terminated (generateShadowRay fo ext pt sd ro rd) \<and>
         terminated (generateScatterRay fo k ext pt sd ro rd) \<and>
         terminated (handleHit fo k ext pt sd hit ci rd) \<and>
         terminated (handleMiss fo k ext pt rd)"
  using assms
  by (simp add: generateShadowRay_frame generateScatterRay_terminated_mono
      handleHit_terminated_mono handleMiss_terminated)

theorem terminated_monotone_witness:
  "terminated (payload (splat3 (Fin 1)) 0 True) \<and>
   terminated (generateShadowRay xfloat_ops (scene (Fin 1)) ptData (surface (Fin 1))
      (splat3 (Fin 0)) (payload (splat3 (Fin 1)) 0 True)) \<and>
   terminated (generateScatterRay xfloat_ops (config True True True) (scene (Fin 1)) ptData
      (surface (Fin 1)) (splat3 (Fin 0)) (payload (splat3 (Fin 1)) 0 True)) \<and>
   terminated (handleHit xfloat_ops (config True True True) (scene (Fin 1)) ptData
      (surface (Fin 1)) () True (payload (splat3 (Fin 1)) 0 True)) \<and>
   terminated (handleMiss xfloat_ops (config True True True) (scene (Fin 1)) ptData
      (payload (splat3 (Fin 1)) 0 True))"
proof -
  have t: "terminated (payload (splat3 (Fin 1)) 0 True)"
    by (simp add: payload_def)
  from t terminated_monotone [OF t, of xfloat_ops "scene (Fin 1)" ptData "surface (Fin 1)"
      "splat3 (Fin 0)" "config True True True" "()" True]
  show ?thesis by simp
qed

section \<open>The hit handler: the next path segment\<close>

lemma word_less_unat_Suc:
  fixes x :: "32 word"
  assumes "x < y"
  shows "unat (x + 1) = unat x + 1"
proof -
  from assms have "unat x < unat y" by (simp add: word_less_nat_alt)
  moreover have "unat y < 2 ^ 32" using unsigned_less [of y] by simp
  ultimately have "unat x + 1 < 2 ^ 32" by simp
  then show ?thesis by (simp add: unat_word_ariths)
qed

lemma handleHit_indirect:
  assumes "ci \<and> pathLength rd < kMaxBounces k"
  shows "handleHit fo k ext pt sd hit ci rd =
           (generateScatterRay fo k ext pt sd (computeNewRayOrigin ext sd)
              (generateShadowRay fo ext pt sd (computeNewRayOrigin ext sd)
                 (handleHit_emissive fo k ext pt sd hit rd)))
           \<lparr>pathLength := pathLength rd + 1\<rparr>"
  using assms
  by (simp add: handleHit_def Let_def handleHit_emissive_frame generateShadowRay_frame
      generateScatterRay_frame)

lemma handleHit_direct_only:
  assumes "\<not> (ci \<and> pathLength rd < kMaxBounces k)"
  shows "handleHit fo k ext pt sd hit ci rd = handleHit_emissive fo k ext pt sd hit rd"
  using assms by (auto simp add: handleHit_def Let_def handleHit_emissive_frame)

text \<open>
  Claim C7. \<open>handleHit\<close> generates the shadow ray and the scatter ray and increments
  the path length by exactly one if and only if indirect illumination is enabled and
  the path length is below \<open>kMaxBounces\<close>; the increment does not wrap around.
  Otherwise the payload is the one left by the emissive step: no ray is generated, and
  path length, terminated flag and every member but \<open>Le\<close> are as on entry.
\<close>

theorem handleHit_next_segment:
  "((pathLength (handleHit fo k ext pt sd hit ci rd) = pathLength rd + 1) =
      (ci \<and> pathLength rd < kMaxBounces k)) \<and>
   (if ci \<and> pathLength rd < kMaxBounces k
    then handleHit fo k ext pt sd hit ci rd =
           (generateScatterRay fo k ext pt sd (computeNewRayOrigin ext sd)
              (generateShadowRay fo ext pt sd (computeNewRayOrigin ext sd)
                 (handleHit_emissive fo k ext pt sd hit rd)))
           \<lparr>pathLength := pathLength rd + 1\<rparr> \<and>
         unat (pathLength (handleHit fo k ext pt sd hit ci rd)) = unat (pathLength rd) + 1
    else handleHit fo k ext pt sd hit ci rd = handleHit_emissive fo k ext pt sd hit rd \<and>
         pathLength (handleHit fo k ext pt sd hit ci rd) = pathLength rd \<and>
         terminated (handleHit fo k ext pt sd hit ci rd) = terminated rd \<and>
         shadowRay (handleHit fo k ext pt sd hit ci rd) = shadowRay rd \<and>
         Lr (handleHit fo k ext pt sd hit ci rd) = Lr rd \<and>
         origin (handleHit fo k ext pt sd hit ci rd) = origin rd \<and>
         direction (handleHit fo k ext pt sd hit ci rd) = direction rd \<and>
         thp (handleHit fo k ext pt sd hit ci rd) = thp rd \<and>
         pdf (handleHit fo k ext pt sd hit ci rd) = pdf rd \<and>
         normal (handleHit fo k ext pt sd hit ci rd) = normal rd \<and>
         sg (handleHit fo k ext pt sd hit ci rd) = sg rd)"
proof (cases "ci \<and> pathLength rd < kMaxBounces k")
  case True
  then have lt: "pathLength rd < kMaxBounces k" by simp
  note eq = handleHit_indirect [OF True, of fo ext pt sd hit]
  have "pathLength (handleHit fo k ext pt sd hit ci rd) = pathLength rd + 1"
    by (simp add: eq)
  moreover have "unat (pathLength rd + 1) = unat (pathLength rd) + 1"
    by (rule word_less_unat_Suc [OF lt])
  ultimately show ?thesis using True eq by simp
next
  case False
  note eq = handleHit_direct_only [OF False, of fo ext pt sd hit]
  from False have "\<not> ci \<or> \<not> pathLength rd < kMaxBounces k" by simp
  then show ?thesis by (auto simp add: eq handleHit_emissive_frame)
qed

theorem handleHit_next_segment_witness:
  "pathLength (handleHit xfloat_ops (config True True False) (scene (Fin (1 / 2))) ptData
      (surface (Fin 0)) () True (payload (splat3 (Fin 1)) 2 False)) = 3 \<and>
   shadowRay (handleHit xfloat_ops (config True True False) (scene (Fin (1 / 2))) ptData
      (surface (Fin 0)) () True (payload (splat3 (Fin 1)) 2 False))
     = Float4 (Fin 0) (Fin 0) (Fin 1) (Fin 5) \<and>
   handleHit xfloat_ops (config True True False) (scene (Fin (1 / 2))) ptData
      (surface (Fin 0)) () True (payload (splat3 (Fin 1)) 3 False)
     = payload (splat3 (Fin 1)) 3 False \<and>
   handleHit xfloat_ops (config True True False) (scene (Fin (1 / 2))) ptData
      (surface (Fin 0)) () False (payload (splat3 (Fin 1)) 2 False)
     = payload (splat3 (Fin 1)) 2 False"
  using
    handleHit_next_segment [of xfloat_ops "config True True False" "scene (Fin (1 / 2))" ptData
      "surface (Fin 0)" "()" True "payload (splat3 (Fin 1)) 2 False"]
    handleHit_next_segment [of xfloat_ops "config True True False" "scene (Fin (1 / 2))" ptData
      "surface (Fin 0)" "()" True "payload (splat3 (Fin 1)) 3 False"]
    handleHit_next_segment [of xfloat_ops "config True True False" "scene (Fin (1 / 2))" ptData
      "surface (Fin 0)" "()" False "payload (splat3 (Fin 1)) 2 False"]
  by (simp add: scene_defs handleHit_emissive_def computeEmissive_def generateShadowRay_def
      generateScatterRay_def scatterSegment_def Let_def)

section \<open>The shadow ray generator\<close>

text \<open>
  Claim C8. \<open>generateShadowRay\<close> leaves the throughput as it is and stores in \<open>Lr\<close>
  the product \<^verbatim>\<open>evalBRDFCosine(sd, ls.dir) * ls.Li * thp\<close> when some channel of the
  sampled radiance \<open>Li\<close> is greater than zero, and \<^verbatim>\<open>float3(0)\<close> otherwise. When
  \<open>handleHit\<close> generates the next segment, the \<open>Lr\<close> it returns is this value for
  the throughput the payload had on entry, not the one \<open>generateScatterRay\<close> leaves.
\<close>

theorem generateShadowRay_Lr:
  "thp (generateShadowRay fo ext pt sd ro rd) = thp rd \<and>
   Lr (generateShadowRay fo ext pt sd ro rd) =
     (let ls = fst (sampleSceneLights ext (params pt) (envProbe pt) (emissiveSampler pt)
                      sd ro (sg rd))
      in if any3 (\<lambda>c. op_gt fo c (zero_f fo)) (Li ls)
         then mul3 fo (mul3 fo (evalBRDFCosine ext sd (SceneLightSample.dir ls)) (Li ls)) (thp rd)
         else splat3 (zero_f fo)) \<and>
   (ci \<and> pathLength rd < kMaxBounces k \<longrightarrow>
      Lr (handleHit fo k ext pt sd hit ci rd) =
        (let ls = fst (sampleSceneLights ext (params pt) (envProbe pt) (emissiveSampler pt)
                         sd (computeNewRayOrigin ext sd) (sg rd))
         in if any3 (\<lambda>c. op_gt fo c (zero_f fo)) (Li ls)
            then mul3 fo (mul3 fo (evalBRDFCosine ext sd (SceneLightSample.dir ls)) (Li ls)) (thp rd)
            else splat3 (zero_f fo)))"
proof -
  have a: "\<And>ro r. Lr (generateShadowRay fo ext pt sd ro r) =
     (let ls = fst (sampleSceneLights ext (params pt) (envProbe pt) (emissiveSampler pt)
                      sd ro (sg r))
      in if any3 (\<lambda>c. op_gt fo c (zero_f fo)) (Li ls)
         then mul3 fo (mul3 fo (evalBRDFCosine ext sd (SceneLightSample.dir ls)) (Li ls)) (thp r)
         else splat3 (zero_f fo))"
    by (simp add: generateShadowRay_def Let_def split: prod.splits)
  have b: "ci \<and> pathLength rd < kMaxBounces k \<Longrightarrow>
      Lr (handleHit fo k ext pt sd hit ci rd) =
        Lr (generateShadowRay fo ext pt sd (computeNewRayOrigin ext sd)
              (handleHit_emissive fo k ext pt sd hit rd))"
    by (simp add: handleHit_indirect generateScatterRay_frame)
  show ?thesis
    using b by (simp add: a generateShadowRay_frame handleHit_emissive_frame Let_def)
qed

theorem generateShadowRay_Lr_witness:
  "thp (generateShadowRay xfloat_ops (scene (Fin (1 / 2))) ptData (surface (Fin 0))
      (splat3 (Fin 0)) (payload (splat3 (Fin 2)) 0 False)) = splat3 (Fin 2) \<and>
   Lr (generateShadowRay xfloat_ops (scene (Fin (1 / 2))) ptData (surface (Fin 0))
      (splat3 (Fin 0)) (payload (splat3 (Fin 2)) 0 False)) = splat3 (Fin 1) \<and>
   pathLength (payload (splat3 (Fin 2)) 0 False) < kMaxBounces (config True True False) \<and>
   Lr (handleHit xfloat_ops (config True True False) (scene (Fin (1 / 2))) ptData
      (surface (Fin 0)) () True (payload (splat3 (Fin 2)) 0 False)) = splat3 (Fin 1) \<and>
   thp (handleHit xfloat_ops (config True True False) (scene (Fin (1 / 2))) ptData
      (surface (Fin 0)) () True (payload (splat3 (Fin 2)) 0 False)) = splat3 (Fin 1)"
proof -
  have c: "pathLength (payload (splat3 (Fin 2)) 0 False) < kMaxBounces (config True True False)"
    by (simp add: payload_def config_def)
  have t: "thp (handleHit xfloat_ops (config True True False) (scene (Fin (1 / 2))) ptData
      (surface (Fin 0)) () True (payload (splat3 (Fin 2)) 0 False)) = splat3 (Fin 1)"
    by (simp add: handleHit_def handleHit_emissive_def computeEmissive_def
        generateShadowRay_def generateScatterRay_def scatterSegment_def Let_def scene_defs)
  show ?thesis
    using c t
      generateShadowRay_Lr [of xfloat_ops "scene (Fin (1 / 2))" ptData "surface (Fin 0)"
        "splat3 (Fin 0)" "payload (splat3 (Fin 2)) 0 False" True "config True True False" "()"]
    by (simp add: scene_defs)
qed

section \<open>The hit handler: the emissive contribution\<close>

lemma scale3_one:
  assumes "\<forall>a. op_mul fo a (one_f fo) = a"
  shows "scale3 fo v (one_f fo) = v"
  using assms by (cases v) simp

lemma handleHit_Le_emissive:
  "Le (handleHit fo k ext pt sd hit ci rd) = Le (handleHit_emissive fo k ext pt sd hit rd)"
  by (simp add: handleHit_def Let_def generateScatterRay_frame generateShadowRay_frame)

lemma xmul_one: "xmul a (Fin 1) = a"
  by (cases a) simp_all

text \<open>
  Claim C1, as the code has it. \<open>handleHit\<close> computes \<open>Le\<close> if and only if emissive
  lights are enabled, and no emissive sampler is configured or both the sampler and MIS
  are enabled, and the surface's emission is greater than zero in some channel; the
  value is throughput times emission times the MIS weight, and \<open>Le\<close> keeps its value
  otherwise. When it is computed and the sampler-and-MIS case does not apply, the weight
  is \<^verbatim>\<open>1.f\<close>, so that \<open>Le\<close> is throughput times emission in an arithmetic where
  multiplying by \<^verbatim>\<open>1.f\<close> changes nothing. The claim's test, an emission that is
  non-zero in some channel, is not the code's: a negative emission is non-zero and is
  not greater than zero.
\<close>

theorem handleHit_Le:
  assumes "\<forall>a. op_mul fo a (one_f fo) = a"
  shows "Le (handleHit fo k ext pt sd hit ci rd) =
           (if kUseEmissiveLights k \<and>
               (\<not> kUseEmissiveSampler k \<or> (kUseEmissiveSampler k \<and> kUseMIS k)) \<and>
               any3 (\<lambda>c. op_gt fo c (zero_f fo)) (emissive sd)
            then scale3 fo (mul3 fo (thp rd) (emissive sd))
                   (if kUseEmissiveSampler k \<and> kUseMIS k
                    then evalMIS ext (params pt) (pdf rd)
                           (op_mul fo
                              (evalPdf ext (emissiveSampler pt) (origin rd) (normal rd) hit)
                              (getEmissiveLightSelectionPdf ext))
                    else one_f fo)
            else Le rd) \<and>
         (kUseEmissiveLights k \<and>
          (\<not> kUseEmissiveSampler k \<or> (kUseEmissiveSampler k \<and> kUseMIS k)) \<and>
          any3 (\<lambda>c. op_gt fo c (zero_f fo)) (emissive sd) \<and>
          \<not> (kUseEmissiveSampler k \<and> kUseMIS k) \<longrightarrow>
            Le (handleHit fo k ext pt sd hit ci rd) = mul3 fo (thp rd) (emissive sd))"
  by (simp add: handleHit_Le_emissive handleHit_emissive_def computeEmissive_def Let_def
      scale3_one [OF assms])

theorem handleHit_Le_witness:
  "Le (handleHit xfloat_ops (config True False False) (scene (Fin 1)) ptData (surface (Fin 2))
      () False (payload (splat3 (Fin 3)) 0 False)) = Float3 (Fin 6) (Fin 0) (Fin 0) \<and>
   Le (handleHit xfloat_ops (config True True True) (scene (Fin 1)) ptData (surface (Fin 2))
      () False (payload (splat3 (Fin 3)) 0 False)) = Float3 (Fin 3) (Fin 0) (Fin 0) \<and>
   Le (handleHit xfloat_ops (config True False True) (scene (Fin 1)) ptData (surface (Fin 2))
      () False (payload (splat3 (Fin 3)) 0 False)) = splat3 (Fin 7) \<and>
   Le (handleHit xfloat_ops (config True False False) (scene (Fin 1)) ptData (surface (Fin 0))
      () False (payload (splat3 (Fin 3)) 0 False)) = splat3 (Fin 7)"
proof -
  have one: "\<forall>a. op_mul xfloat_ops a (one_f xfloat_ops) = a"
    by (simp add: xfloat_ops_def xmul_one)
  show ?thesis
    using
      handleHit_Le [OF one, of "config True False False" "scene (Fin 1)" ptData
        "surface (Fin 2)" "()" False "payload (splat3 (Fin 3)) 0 False"]
      handleHit_Le [OF one, of "config True True True" "scene (Fin 1)" ptData
        "surface (Fin 2)" "()" False "payload (splat3 (Fin 3)) 0 False"]
      handleHit_Le [OF one, of "config True False True" "scene (Fin 1)" ptData
        "surface (Fin 2)" "()" False "payload (splat3 (Fin 3)) 0 False"]
      handleHit_Le [OF one, of "config True False False" "scene (Fin 1)" ptData
        "surface (Fin 0)" "()" False "payload (splat3 (Fin 3)) 0 False"]
    by (simp add: scene_defs)
qed

text \<open>
  The claim as stated fails on a surface whose emission is \<open>-1\<close> in the first channel
  and zero in the others, with emissive lights enabled and no emissive sampler: the
  emission is non-zero in a channel, and \<open>handleHit\<close> leaves \<open>Le\<close> as it was, which
  is not throughput times emission.
\<close>

theorem handleHit_Le_nonzero_counterexample:
  "kUseEmissiveLights (config True False False) \<and>
   \<not> kUseEmissiveSampler (config True False False) \<and>
   any3 (\<lambda>c. \<not> op_eq xfloat_ops c (zero_f xfloat_ops)) (emissive (surface (Fin (- 1)))) \<and>
   Le (handleHit xfloat_ops (config True False False) (scene (Fin 1)) ptData
        (surface (Fin (- 1))) () False (payload (splat3 (Fin 3)) 0 False))
     = Le (payload (splat3 (Fin 3)) 0 False) \<and>
   Le (handleHit xfloat_ops (config True False False) (scene (Fin 1)) ptData
        (surface (Fin (- 1))) () False (payload (splat3 (Fin 3)) 0 False))
     \<noteq> mul3 xfloat_ops (thp (payload (splat3 (Fin 3)) 0 False)) (emissive (surface (Fin (- 1))))"
  by (simp add: handleHit_def handleHit_emissive_def computeEmissive_def Let_def scene_defs)

section \<open>The assertions of the scatter ray generator\<close>

lemma mul3_no_nan:
  assumes law: "\<forall>a b. op_isnan fo (op_mul fo a b) \<longrightarrow>
             op_isnan fo a \<or> op_isnan fo b \<or> (is_zero a \<and> is_inf b) \<or> (is_inf a \<and> is_zero b)"
    and a: "\<not> any3 (op_isnan fo) u"
    and b: "\<not> any3 (op_isnan fo) v"
    and p: "rel3 (\<lambda>x y. \<not> (is_zero x \<and> is_inf y) \<and> \<not> (is_inf x \<and> is_zero y)) u v"
  shows "\<not> any3 (op_isnan fo) (mul3 fo u v)"
proof (cases u)
  case u: (Float3 a1 a2 a3)
  show ?thesis
  proof (cases v)
    case v: (Float3 b1 b2 b3)
    have "\<not> op_isnan fo (op_mul fo a1 b1)"
      using law [rule_format, of a1 b1] a b p by (auto simp add: u v)
    moreover have "\<not> op_isnan fo (op_mul fo a2 b2)"
      using law [rule_format, of a2 b2] a b p by (auto simp add: u v)
    moreover have "\<not> op_isnan fo (op_mul fo a3 b3)"
      using law [rule_format, of a3 b3] a b p by (auto simp add: u v)
    ultimately show ?thesis by (simp add: u v)
  qed
qed

lemma scale3_no_nan:
  assumes law: "\<forall>a b. op_isnan fo (op_mul fo a b) \<longrightarrow>
             op_isnan fo a \<or> op_isnan fo b \<or> (is_zero a \<and> is_inf b) \<or> (is_inf a \<and> is_zero b)"
    and a: "\<not> any3 (op_isnan fo) u"
    and s: "\<not> op_isnan fo s" "\<not> is_zero s" "\<not> is_inf s"
  shows "\<not> any3 (op_isnan fo) (scale3 fo u s)"
proof (cases u)
  case u: (Float3 a1 a2 a3)
  have "\<not> op_isnan fo (op_mul fo a1 s)"
    using law [rule_format, of a1 s] a s by (auto simp add: u)
  moreover have "\<not> op_isnan fo (op_mul fo a2 s)"
    using law [rule_format, of a2 s] a s by (auto simp add: u)
  moreover have "\<not> op_isnan fo (op_mul fo a3 s)"
    using law [rule_format, of a3 s] a s by (auto simp add: u)
  ultimately show ?thesis by (simp add: u)
qed

lemma scatterSegment_brdf:
  assumes "kUseBRDFSampling k"
  shows "thp (scatterSegment fo k ext sd ro rd) =
           mul3 fo (thp rd) (BRDFSample.thp (fst (sampleBRDF ext sd (sg rd))))"
    and "pdf (scatterSegment fo k ext sd ro rd) =
           (if kUseMIS k then BRDFSample.pdf (fst (sampleBRDF ext sd (sg rd))) else zero_f fo)"
  using assms by (simp_all add: scatterSegment_def Let_def split: prod.splits)

lemma scatterSegment_cosine:
  assumes "\<not> kUseBRDFSampling k"
  shows "thp (scatterSegment fo k ext sd ro rd) =
           mul3 fo (thp rd)
             (scale3 fo
                (evalBRDF ext sd (fst (sampleHemisphereCosine ext sd (fst (sampleNext2D ext (sg rd))))))
                (M_PI fo))"
    and "pdf (scatterSegment fo k ext sd ro rd) = zero_f fo \<or>
         pdf (scatterSegment fo k ext sd ro rd) =
           snd (sampleHemisphereCosine ext sd (fst (sampleNext2D ext (sg rd))))"
  using assms by (simp_all add: scatterSegment_def Let_def split: prod.splits)

lemma xmul_nan:
  "xmul a b = NaN \<Longrightarrow>
     a = NaN \<or> b = NaN \<or> (a = Fin 0 \<and> (b = PInf \<or> b = NInf)) \<or>
     ((a = PInf \<or> a = NInf) \<and> b = Fin 0)"
  by (cases a; cases b) (simp_all split: if_splits)

text \<open>
  Claim C9, as the code has it. After \<open>generateScatterRay\<close> has run, no channel of
  the throughput is NaN and the pdf is not NaN, so that both assertions hold, provided
  that the sampling and evaluation routines return no NaN, that the throughput has no
  NaN on entry, and that in no channel the throughput on entry and the factor it is
  multiplied by (the sampled BRDF weight, or \<^verbatim>\<open>evalBRDF(sd, dir) * M_PI\<close>) are a zero
  and an infinity. The arithmetic is any one where a product is NaN only if a factor is
  NaN or the factors are a zero and an infinity, and where \<^verbatim>\<open>0.f\<close> is not NaN and
  \<^verbatim>\<open>M_PI\<close> is neither NaN, zero nor infinite. That the routines return no NaN is
  not enough by itself.
\<close>

theorem generateScatterRay_no_nan:
  assumes law: "\<forall>a b. op_isnan fo (op_mul fo a b) \<longrightarrow>
             op_isnan fo a \<or> op_isnan fo b \<or> (is_zero a \<and> is_inf b) \<or> (is_inf a \<and> is_zero b)"
    and zero: "\<not> op_isnan fo (zero_f fo)"
    and pi: "\<not> op_isnan fo (M_PI fo)" "\<not> is_zero (M_PI fo)" "\<not> is_inf (M_PI fo)"
    and entry: "\<not> any3 (op_isnan fo) (thp rd)"
    and brdf: "kUseBRDFSampling k \<longrightarrow>
       \<not> any3 (op_isnan fo) (BRDFSample.thp (fst (sampleBRDF ext sd (sg rd)))) \<and>
       \<not> op_isnan fo (BRDFSample.pdf (fst (sampleBRDF ext sd (sg rd)))) \<and>
       rel3 (\<lambda>x y. \<not> (is_zero x \<and> is_inf y) \<and> \<not> (is_inf x \<and> is_zero y))
         (thp rd) (BRDFSample.thp (fst (sampleBRDF ext sd (sg rd))))"
    and cosine: "\<not> kUseBRDFSampling k \<longrightarrow>
       \<not> any3 (op_isnan fo)
           (evalBRDF ext sd (fst (sampleHemisphereCosine ext sd (fst (sampleNext2D ext (sg rd)))))) \<and>
       \<not> op_isnan fo (snd (sampleHemisphereCosine ext sd (fst (sampleNext2D ext (sg rd))))) \<and>
       rel3 (\<lambda>x y. \<not> (is_zero x \<and> is_inf y) \<and> \<not> (is_inf x \<and> is_zero y))
         (thp rd)
         (scale3 fo
            (evalBRDF ext sd (fst (sampleHemisphereCosine ext sd (fst (sampleNext2D ext (sg rd))))))
            (M_PI fo))"
  shows "generateScatterRay_asserts fo k ext pt sd ro rd \<and>
         \<not> any3 (op_isnan fo) (thp (generateScatterRay fo k ext pt sd ro rd)) \<and>
         \<not> op_isnan fo (pdf (generateScatterRay fo k ext pt sd ro rd))"
proof -
  have seg: "\<not> any3 (op_isnan fo) (thp (scatterSegment fo k ext sd ro rd)) \<and>
             \<not> op_isnan fo (pdf (scatterSegment fo k ext sd ro rd))"
  proof (cases "kUseBRDFSampling k")
    case True
    with brdf
    have w: "\<not> any3 (op_isnan fo) (BRDFSample.thp (fst (sampleBRDF ext sd (sg rd))))"
      and q: "\<not> op_isnan fo (BRDFSample.pdf (fst (sampleBRDF ext sd (sg rd))))"
      and r: "rel3 (\<lambda>x y. \<not> (is_zero x \<and> is_inf y) \<and> \<not> (is_inf x \<and> is_zero y))
         (thp rd) (BRDFSample.thp (fst (sampleBRDF ext sd (sg rd))))"
      by simp_all
    have "\<not> any3 (op_isnan fo)
            (mul3 fo (thp rd) (BRDFSample.thp (fst (sampleBRDF ext sd (sg rd)))))"
      by (rule mul3_no_nan [OF law entry w r])
    then show ?thesis
      using q zero by (simp add: scatterSegment_brdf [OF True])
  next
    case False
    let ?dir = "fst (sampleHemisphereCosine ext sd (fst (sampleNext2D ext (sg rd))))"
    from False cosine
    have w: "\<not> any3 (op_isnan fo) (evalBRDF ext sd ?dir)"
      and q: "\<not> op_isnan fo (snd (sampleHemisphereCosine ext sd (fst (sampleNext2D ext (sg rd)))))"
      and r: "rel3 (\<lambda>x y. \<not> (is_zero x \<and> is_inf y) \<and> \<not> (is_inf x \<and> is_zero y))
         (thp rd) (scale3 fo (evalBRDF ext sd ?dir) (M_PI fo))"
      by simp_all
    have m: "\<not> any3 (op_isnan fo) (scale3 fo (evalBRDF ext sd ?dir) (M_PI fo))"
      by (rule scale3_no_nan [OF law w pi])
    have t: "\<not> any3 (op_isnan fo)
            (mul3 fo (thp rd) (scale3 fo (evalBRDF ext sd ?dir) (M_PI fo)))"
      by (rule mul3_no_nan [OF law entry m r])
    have "\<not> op_isnan fo (pdf (scatterSegment fo k ext sd ro rd))"
      using scatterSegment_cosine(2) [OF False, of fo ext sd ro rd] q zero by auto
    with t show ?thesis
      by (simp add: scatterSegment_cosine(1) [OF False])
  qed
  then show ?thesis
    by (simp add: generateScatterRay_asserts_def Let_def generateScatterRay_frame)
qed

theorem generateScatterRay_no_nan_witness:
  "generateScatterRay_asserts xfloat_ops (config True True False) (scene (Fin (1 / 2))) ptData
     (surface (Fin 0)) (splat3 (Fin 0)) (payload (Float3 (Fin 1) (Fin 0) (Fin 1)) 0 False) \<and>
   thp (generateScatterRay xfloat_ops (config True True False) (scene (Fin (1 / 2))) ptData
     (surface (Fin 0)) (splat3 (Fin 0)) (payload (Float3 (Fin 1) (Fin 0) (Fin 1)) 0 False))
     = Float3 (Fin (1 / 2)) (Fin 0) (Fin (1 / 2)) \<and>
   generateScatterRay_asserts xfloat_ops (config False True False) (scene (Fin (1 / 2))) ptData
     (surface (Fin 0)) (splat3 (Fin 0)) (payload (Float3 (Fin 1) (Fin 0) (Fin 1)) 0 False) \<and>
   pdf (generateScatterRay xfloat_ops (config False True False) (scene (Fin (1 / 2))) ptData
     (surface (Fin 0)) (splat3 (Fin 0)) (payload (Float3 (Fin 1) (Fin 0) (Fin 1)) 0 False))
     = Fin (1 / 4)"
proof -
  let ?z = "\<lambda>a. a = Fin 0" and ?i = "\<lambda>a. a = PInf \<or> a = NInf"
  let ?sd = "surface (Fin 0)" and ?rd = "payload (Float3 (Fin 1) (Fin 0) (Fin 1)) 0 False"
  let ?ext = "scene (Fin (1 / 2))"
  have law: "\<forall>a b. op_isnan xfloat_ops (op_mul xfloat_ops a b) \<longrightarrow>
      op_isnan xfloat_ops a \<or> op_isnan xfloat_ops b \<or> (?z a \<and> ?i b) \<or> (?i a \<and> ?z b)"
    using xmul_nan by (auto simp add: xfloat_ops_def)
  have zero: "\<not> op_isnan xfloat_ops (zero_f xfloat_ops)"
    by (simp add: xfloat_ops_def)
  have pi: "\<not> op_isnan xfloat_ops (M_PI xfloat_ops)" "\<not> ?z (M_PI xfloat_ops)"
    "\<not> ?i (M_PI xfloat_ops)"
    by (simp_all add: xfloat_ops_def)
  have entry: "\<not> any3 (op_isnan xfloat_ops) (thp ?rd)"
    by (simp add: scene_defs)
  have brdf: "\<And>k. kUseBRDFSampling k \<longrightarrow>
       \<not> any3 (op_isnan xfloat_ops) (BRDFSample.thp (fst (sampleBRDF ?ext ?sd (sg ?rd)))) \<and>
       \<not> op_isnan xfloat_ops (BRDFSample.pdf (fst (sampleBRDF ?ext ?sd (sg ?rd)))) \<and>
       rel3 (\<lambda>x y. \<not> (?z x \<and> ?i y) \<and> \<not> (?i x \<and> ?z y))
         (thp ?rd) (BRDFSample.thp (fst (sampleBRDF ?ext ?sd (sg ?rd))))"
    by (simp add: scene_defs)
  have cosine: "\<And>k. \<not> kUseBRDFSampling k \<longrightarrow>
       \<not> any3 (op_isnan xfloat_ops)
           (evalBRDF ?ext ?sd (fst (sampleHemisphereCosine ?ext ?sd (fst (sampleNext2D ?ext (sg ?rd)))))) \<and>
       \<not> op_isnan xfloat_ops (snd (sampleHemisphereCosine ?ext ?sd (fst (sampleNext2D ?ext (sg ?rd))))) \<and>
       rel3 (\<lambda>x y. \<not> (?z x \<and> ?i y) \<and> \<not> (?i x \<and> ?z y))
         (thp ?rd)
         (scale3 xfloat_ops
            (evalBRDF ?ext ?sd (fst (sampleHemisphereCosine ?ext ?sd (fst (sampleNext2D ?ext (sg ?rd))))))
            (M_PI xfloat_ops))"
    by (simp add: scene_defs)
  have t: "thp (generateScatterRay xfloat_ops (config True True False) ?ext ptData ?sd
       (splat3 (Fin 0)) ?rd) = Float3 (Fin (1 / 2)) (Fin 0) (Fin (1 / 2))"
    by (simp add: generateScatterRay_def scatterSegment_def Let_def scene_defs)
  have p: "pdf (generateScatterRay xfloat_ops (config False True False) ?ext ptData ?sd
       (splat3 (Fin 0)) ?rd) = Fin (1 / 4)"
    by (simp add: generateScatterRay_def scatterSegment_def Let_def scene_defs)
  show ?thesis
    using t p
      generateScatterRay_no_nan [OF law zero pi entry brdf cosine,
        of "config True True False" ptData "splat3 (Fin 0)"]
      generateScatterRay_no_nan [OF law zero pi entry brdf cosine,
        of "config False True False" ptData "splat3 (Fin 0)"]
    by simp
qed

text \<open>
  The claim as stated fails in the BRDF-sampling branch. First, the throughput is
  \<open>(1, 0, 1)\<close> on entry and the sampled weight is infinite, which is not NaN: the
  second channel becomes \<open>0 * \<infinity>\<close>, a NaN, and the first assertion fails. Second, the
  sampled weight is \<open>1/2\<close> and the throughput is NaN on entry: it stays NaN.
\<close>

theorem generateScatterRay_nan_counterexample:
  "\<not> any3 (op_isnan xfloat_ops) (thp (payload (Float3 (Fin 1) (Fin 0) (Fin 1)) 0 False)) \<and>
   \<not> any3 (op_isnan xfloat_ops)
      (BRDFSample.thp (fst (sampleBRDF (scene PInf) (surface (Fin 0))
         (sg (payload (Float3 (Fin 1) (Fin 0) (Fin 1)) 0 False))))) \<and>
   \<not> op_isnan xfloat_ops
      (BRDFSample.pdf (fst (sampleBRDF (scene PInf) (surface (Fin 0))
         (sg (payload (Float3 (Fin 1) (Fin 0) (Fin 1)) 0 False))))) \<and>
   thp (generateScatterRay xfloat_ops (config True True False) (scene PInf) ptData
      (surface (Fin 0)) (splat3 (Fin 0)) (payload (Float3 (Fin 1) (Fin 0) (Fin 1)) 0 False))
     = Float3 PInf NaN PInf \<and>
   \<not> generateScatterRay_asserts xfloat_ops (config True True False) (scene PInf) ptData
      (surface (Fin 0)) (splat3 (Fin 0)) (payload (Float3 (Fin 1) (Fin 0) (Fin 1)) 0 False) \<and>
   \<not> any3 (op_isnan xfloat_ops)
      (BRDFSample.thp (fst (sampleBRDF (scene (Fin (1 / 2))) (surface (Fin 0))
         (sg (payload (splat3 NaN) 0 False))))) \<and>
   \<not> generateScatterRay_asserts xfloat_ops (config True True False) (scene (Fin (1 / 2))) ptData
      (surface (Fin 0)) (splat3 (Fin 0)) (payload (splat3 NaN) 0 False)"
  by (simp add: generateScatterRay_asserts_def generateScatterRay_def scatterSegment_def
      Let_def scene_defs)

end
